theory Spec2Isabelle
  imports Main
begin

section \<open>The OAuth2 server of \<^verbatim>\<open>src/oauth2/server.js\<close>\<close>

text \<open>
  The handlers of the file are written in continuation-passing style over three
  collaborators that are not part of it: the response object \<^verbatim>\<open>res\<close>, the
  rest-mongo instance \<^verbatim>\<open>R\<close> and the login component. A handler is modelled as a
  function that returns the calls it makes on \<^verbatim>\<open>res\<close>, the console, the tools and
  the login component, in order, together with the store it leaves behind. A store
  operation that is given a fallback either calls the continuation or the fallback; which
  of the two is decided by the store, so the store carries the failures it will report.
\<close>

subsection \<open>JavaScript values\<close>

text \<open>
  A property that may be missing is a \<open>string option\<close>: \<open>None\<close> is
  \<^verbatim>\<open>undefined\<close>. The test \<^verbatim>\<open>if(x)\<close> on such a value holds for a string that is
  not empty.
\<close>

definition truthy :: "string option \<Rightarrow> bool" where
  "truthy v = (case v of None \<Rightarrow> False | Some s \<Rightarrow> s \<noteq> [])"

text \<open>\<^verbatim>\<open>s.split(c)\<close> for a separator of one character: never empty, one part more than
  there are separators.\<close>

fun js_split :: "char \<Rightarrow> string \<Rightarrow> string list" where
  "js_split c [] = [[]]"
| "js_split c (x # xs) =
     (if x = c then [] # js_split c xs
      else (x # hd (js_split c xs)) # tl (js_split c xs))"

text \<open>\<^verbatim>\<open>s.slice(n)\<close> for \<open>n \<ge> 0\<close>: the string without its first \<open>n\<close> characters, empty
  when it is shorter.\<close>

definition slice :: "nat \<Rightarrow> string \<Rightarrow> string" where
  "slice n s = drop n s"

subsection \<open>Data\<close>

record err =
  message :: string
  stack :: string

record client =
  c_id :: string
  c_secret :: string
  c_redirect_uri :: string
  c_name :: string

record grant =
  g_id :: string
  g_client_id :: string
  g_time :: int
  g_user_id :: string
  g_code :: string

record token =
  access_token :: string

type_synonym params = "string \<rightharpoonup> string"

subsection \<open>The store\<close>

text \<open>
  The rest-mongo instance holds the two collections. \<open>fault\<close> lists the operations
  that the persistence layer fails, with the error it hands to the fallback.
\<close>

datatype store_op = Client_get | Grant_save | Grant_delete

record R =
  Client :: "client list"
  Grant :: "grant list"
  fault :: "(store_op \<times> err) list"

text \<open>\<^verbatim>\<open>R.Grant.get({ids: i}, callback)\<close>: the continuation receives the grant of that id
  or a falsy value. \<^verbatim>\<open>valid_grant\<close> passes no fallback to this call, so a failure of the
  lookup reaches none of its code.\<close>

definition Grant_get_ids :: "R \<Rightarrow> string \<Rightarrow> grant option" where
  "Grant_get_ids r i = find (\<lambda>g. g_id g = i) (Grant r)"

text \<open>\<^verbatim>\<open>grant.delete_(callback, fallback)\<close>: \<open>Inl\<close> is the call of the fallback.\<close>

definition delete_grant :: "R \<Rightarrow> grant \<Rightarrow> err + R" where
  "delete_grant r g =
     (case map_of (fault r) Grant_delete of
        Some e \<Rightarrow> Inl e
      | None \<Rightarrow> Inr (r\<lparr>Grant := filter (\<lambda>h. g_id h \<noteq> g_id g) (Grant r)\<rparr>))"

text \<open>\<^verbatim>\<open>grant.save(callback, fallback)\<close> on a new grant: the store assigns the id
  \<open>new_id\<close> (\<^verbatim>\<open>Here we rely on DB to generate a code (grant.id) for us\<close>).\<close>

definition save_grant :: "R \<Rightarrow> string \<Rightarrow> grant \<Rightarrow> err + (grant \<times> R)" where
  "save_grant r new_id g =
     (case map_of (fault r) Grant_save of
        Some e \<Rightarrow> Inl e
      | None \<Rightarrow> (let g' = g\<lparr>g_id := new_id\<rparr> in Inr (g', r\<lparr>Grant := Grant r @ [g']\<rparr>)))"

text \<open>\<^verbatim>\<open>R.Client.get({ids: i}, callback, fallback)\<close>.\<close>

definition Client_get_ids :: "R \<Rightarrow> string \<Rightarrow> err + client option" where
  "Client_get_ids r i =
     (case map_of (fault r) Client_get of
        Some e \<Rightarrow> Inl e
      | None \<Rightarrow> Inr (find (\<lambda>c. c_id c = i) (Client r)))"

subsection \<open>create_access_token and valid_grant\<close>

definition create_access_token :: "string \<Rightarrow> string \<Rightarrow> string" where
  "create_access_token user_id client_id = user_id @ '','' @ client_id"

record data =
  d_code :: string
  d_client_id :: string

text \<open>What \<^verbatim>\<open>valid_grant\<close> calls: \<^verbatim>\<open>callback(token)\<close>, \<^verbatim>\<open>callback(null)\<close> or
  \<^verbatim>\<open>fallback(err)\<close>.\<close>

datatype outcome = Callback "token option" | Fallback err

text \<open>
  \<^verbatim>\<open>valid_grant\<close> runs in two turns of the event loop. The first is the body of the
  function and the continuation of the lookup: it ends with a call of \<^verbatim>\<open>callback(null)\<close>
  or with the call of \<^verbatim>\<open>grant.delete_\<close>. \<open>now\<close> is the value of \<^verbatim>\<open>Date.now()\<close> there.
\<close>

datatype lookup = Finished outcome | Deleting grant

definition valid_grant_lookup :: "R \<Rightarrow> int \<Rightarrow> data \<Rightarrow> lookup" where
  "valid_grant_lookup r now d =
     (let id_code = js_split CHR ''|'' (d_code d) in
      if length id_code \<noteq> 2 then Finished (Callback None)
      else
        (case Grant_get_ids r (id_code ! 0) of
           None \<Rightarrow> Finished (Callback None)
         | Some grant \<Rightarrow>
             (let minute_ago = now - 60000 in
              if g_time grant < minute_ago \<or>
                 g_client_id grant \<noteq> d_client_id d \<or>
                 g_code grant \<noteq> id_code ! 1
              then Finished (Callback None)
              else Deleting grant)))"

text \<open>The second turn is the delete and its two continuations.\<close>

definition valid_grant_delete :: "R \<Rightarrow> grant \<Rightarrow> outcome \<times> R" where
  "valid_grant_delete r grant =
     (case delete_grant r grant of
        Inl e \<Rightarrow> (Fallback e, r)
      | Inr r' \<Rightarrow>
          (Callback (Some \<lparr>access_token =
             create_access_token (g_user_id grant) (g_client_id grant)\<rparr>), r'))"

definition valid_grant_finish :: "R \<Rightarrow> lookup \<Rightarrow> outcome \<times> R" where
  "valid_grant_finish r l =
     (case l of Finished out \<Rightarrow> (out, r) | Deleting grant \<Rightarrow> valid_grant_delete r grant)"

text \<open>One call of \<^verbatim>\<open>valid_grant\<close> with nothing else running in between.\<close>

definition valid_grant :: "R \<Rightarrow> int \<Rightarrow> data \<Rightarrow> outcome \<times> R" where
  "valid_grant r now d = valid_grant_finish r (valid_grant_lookup r now d)"

subsection \<open>Two calls of valid_grant\<close>

text \<open>Two calls, the second made after the first has called back.\<close>

definition valid_grant_twice ::
  "R \<Rightarrow> int \<Rightarrow> data \<Rightarrow> int \<Rightarrow> data \<Rightarrow> outcome \<times> outcome \<times> R" where
  "valid_grant_twice r now1 d1 now2 d2 =
     (case valid_grant r now1 d1 of
        (out1, r1) \<Rightarrow>
          (case valid_grant r1 now2 d2 of (out2, r2) \<Rightarrow> (out1, out2, r2)))"

text \<open>
  Two calls made by two requests that are in flight together: the store answers both
  lookups before it runs either delete, so both continuations of the lookup see the
  store \<open>r\<close>; the deletes then run one after the other.
\<close>

definition valid_grant_overlapped ::
  "R \<Rightarrow> int \<Rightarrow> data \<Rightarrow> int \<Rightarrow> data \<Rightarrow> outcome \<times> outcome \<times> R" where
  "valid_grant_overlapped r now1 d1 now2 d2 =
     (let l1 = valid_grant_lookup r now1 d1;
          l2 = valid_grant_lookup r now2 d2
      in case valid_grant_finish r l1 of
           (out1, r1) \<Rightarrow>
             (case valid_grant_finish r1 l2 of (out2, r2) \<Rightarrow> (out1, out2, r2)))"

subsection \<open>Responses\<close>

datatype json = JStr string | JObj "(string \<times> json) list"

text \<open>\<open>JSON v\<close> is the string \<^verbatim>\<open>JSON.stringify(v)\<close>.\<close>

datatype body = Text string | JSON json

record client_data =
  client_id :: string
  client_name :: string
  redirect_uri :: string
  state :: "string option"

datatype action =
    WriteHead nat "(string \<times> string) list"
  | End body
  | ConsoleLog string
  | ServerError err
  | Redirect string
  | Login client_data

text \<open>\<^verbatim>\<open>oauth2.ERRORS\<close> comes from \<^verbatim>\<open>./common\<close>: the description of an error id of a
  class. It is a parameter of every handler that reports errors.\<close>

type_synonym errors = "string \<Rightarrow> string \<Rightarrow> string"

definition oauth_error :: "errors \<Rightarrow> string \<Rightarrow> string \<Rightarrow> action list" where
  "oauth_error ERRORS type ident =
     [WriteHead 400 [(''Content-Type'', ''text/html'')],
      End (JSON (JObj [(''error'', JObj
        [(''type'', JStr ''OAuthException''),
         (''message'', JStr (ident @ '': '' @ ERRORS type ident))])]))]"

definition unknown_error :: "err \<Rightarrow> action list" where
  "unknown_error e = [ConsoleLog (message e), ConsoleLog (stack e), ServerError e]"

subsection \<open>PARAMS\<close>

definition eua_mandatory :: "string list" where
  "eua_mandatory = [''client_id'', ''response_type'', ''redirect_uri'']"

definition eua_optional :: "string list" where
  "eua_optional = [''state'', ''scope'']"

definition eua_all :: "string list" where
  "eua_all = eua_mandatory @ eua_optional"

definition eua_response_types :: "(string \<times> nat) list" where
  "eua_response_types = [(''token'', 1), (''code'', 1), (''code_and_token'', 1)]"

definition oat_mandatory :: "string list" where
  "oat_mandatory = [''grant_type'', ''client_id'', ''code'', ''redirect_uri'']"

definition oat_optional :: "string list" where
  "oat_optional = [''scope'', ''client_secret'']"

text \<open>
  \<^verbatim>\<open>PARAMS.eua.response_types\<close> is an object literal, and
  \<^verbatim>\<open>PARAMS.eua.response_types[x]\<close> reads the property \<open>x\<close> of it: its own property when
  it has one, else the property that every object inherits from \<^verbatim>\<open>Object.prototype\<close>.
  The inherited ones are functions or objects, all truthy.
\<close>

definition Object_prototype :: "string list" where
  "Object_prototype =
     [''constructor'', ''toString'', ''toLocaleString'', ''valueOf'', ''hasOwnProperty'',
      ''isPrototypeOf'', ''propertyIsEnumerable'', ''__proto__'', ''__defineGetter__'',
      ''__defineSetter__'', ''__lookupGetter__'', ''__lookupSetter__'']"

text \<open>The truth value of \<^verbatim>\<open>PARAMS.eua.response_types[x]\<close>.\<close>

definition response_types_has :: "string \<Rightarrow> bool" where
  "response_types_has x =
     (case map_of eua_response_types x of
        Some n \<Rightarrow> n \<noteq> 0
      | None \<Rightarrow> x \<in> set Object_prototype)"

text \<open>The loop \<^verbatim>\<open>mandatory.forEach(function(param) {if(!params[param]) error = true})\<close>:
  the value of \<^verbatim>\<open>error\<close> after it.\<close>

definition missing_mandatory :: "string list \<Rightarrow> params \<Rightarrow> bool" where
  "missing_mandatory mandatory ps = (\<not> list_all (\<lambda>param. truthy (ps param)) mandatory)"

subsection \<open>send_grant\<close>

text \<open>
  \<open>now\<close> is \<^verbatim>\<open>Date.now()\<close>, \<open>rand\<close> is \<^verbatim>\<open>randomString(128)\<close>, \<open>new_id\<close> the id the
  store gives the grant, \<open>stringify\<close> is \<^verbatim>\<open>querystring.stringify\<close> on the list of the
  properties of \<^verbatim>\<open>qs\<close>.
\<close>

definition send_grant ::
  "((string \<times> string) list \<Rightarrow> string) \<Rightarrow> int \<Rightarrow> string \<Rightarrow> string \<Rightarrow>
   R \<Rightarrow> string \<Rightarrow> client_data \<Rightarrow> action list \<times> R" where
  "send_grant stringify now rand new_id r user_id cd =
     (let grant = \<lparr>g_id = [], g_client_id = client_id cd, g_time = now,
                   g_user_id = user_id, g_code = rand\<rparr>
      in case save_grant r new_id grant of
           Inr (grant', r') \<Rightarrow>
             (let qs = [(''code'', g_id grant' @ ''|'' @ g_code grant')];
                  qs' = (if truthy (state cd) then qs @ [(''state'', the (state cd))] else qs)
              in ([Redirect (redirect_uri cd @ ''?'' @ stringify qs')], r'))
         | Inl e \<Rightarrow> (unknown_error e, r))"

subsection \<open>token_endpoint\<close>

text \<open>\<^verbatim>\<open>req.form.complete(function(err, params, files) ...)\<close> calls back with an error
  or with the object of the fields of the form. A request is its URL, its headers and its
  form, which is missing when no form was sent.\<close>

datatype form = Complete_err err | Complete params

record req =
  url :: string
  headers :: "string \<rightharpoonup> string"
  form :: "form option"

text \<open>The continuation that \<^verbatim>\<open>token_endpoint\<close> gives to \<^verbatim>\<open>valid_grant\<close>.\<close>

definition token_reply :: "errors \<Rightarrow> token option \<Rightarrow> action list" where
  "token_reply ERRORS tok =
     (case tok of
        None \<Rightarrow> oauth_error ERRORS ''oat'' ''invalid_grant''
      | Some t \<Rightarrow>
          [WriteHead 200 [(''Content-Type'', ''application/json''),
                          (''Cache-Control'', ''no-store'')],
           End (JSON (JObj [(''access_token'', JStr (access_token t))]))])"

text \<open>The continuation of \<^verbatim>\<open>R.Client.get\<close> in \<^verbatim>\<open>token_endpoint\<close>, and its fallback.
  The mandatory fields are strings here: the handler has checked them.\<close>

definition token_client :: "errors \<Rightarrow> R \<Rightarrow> int \<Rightarrow> params \<Rightarrow> action list \<times> R" where
  "token_client ERRORS r now ps =
     (case Client_get_ids r (the (ps ''client_id'')) of
        Inl e \<Rightarrow> (unknown_error e, r)
      | Inr None \<Rightarrow> (oauth_error ERRORS ''oat'' ''invalid_client'', r)
      | Inr (Some client) \<Rightarrow>
          if Some (c_secret client) \<noteq> ps ''client_secret''
          then (oauth_error ERRORS ''oat'' ''invalid_client'', r)
          else if Some (c_redirect_uri client) \<noteq> ps ''redirect_uri''
          then (oauth_error ERRORS ''oat'' ''invalid_grant'', r)
          else
            (case valid_grant r now \<lparr>d_code = the (ps ''code''), d_client_id = c_id client\<rparr> of
               (Callback tok, r') \<Rightarrow> (token_reply ERRORS tok, r')
             | (Fallback e, r') \<Rightarrow> (unknown_error e, r')))"

definition token_endpoint :: "errors \<Rightarrow> R \<Rightarrow> int \<Rightarrow> req \<Rightarrow> action list \<times> R" where
  "token_endpoint ERRORS r now rq =
     (case form rq of
        None \<Rightarrow> (oauth_error ERRORS ''oat'' ''invalid_request'', r)
      | Some (Complete_err e) \<Rightarrow> (oauth_error ERRORS ''oat'' ''invalid_request'', r)
      | Some (Complete ps) \<Rightarrow>
          if missing_mandatory oat_mandatory ps
          then (oauth_error ERRORS ''oat'' ''invalid_request'', r)
          else if ps ''grant_type'' \<noteq> Some ''authorization_code''
          then (oauth_error ERRORS ''oat'' ''unsupported_grant_type'', r)
          else
            (let secret = headers rq ''authorization'' in
             if truthy secret then
               (if truthy (ps ''client_secret'')
                then (oauth_error ERRORS ''oat'' ''invalid_request'', r)
                else token_client ERRORS r now
                       (ps(''client_secret'' \<mapsto> slice 6 (the secret))))
             else if \<not> truthy (ps ''client_secret'')
             then (oauth_error ERRORS ''oat'' ''invalid_request'', r)
             else token_client ERRORS r now ps))"

subsection \<open>authorize and authorize_endpoint\<close>

definition not_implemented :: "action list" where
  "not_implemented =
     [WriteHead 501 [(''Content-Type'', ''text/html'')],
      End (Text (''Only code request type supported for now '' @
                 ''(schema 1.4.1 in oauth2 spec draft 10).''))]"

text \<open>The continuation of \<^verbatim>\<open>R.Client.get\<close> in \<^verbatim>\<open>authorize\<close>, and its fallback.\<close>

definition authorize_client :: "errors \<Rightarrow> R \<Rightarrow> params \<Rightarrow> action list" where
  "authorize_client ERRORS r ps =
     (case Client_get_ids r (the (ps ''client_id'')) of
        Inl e \<Rightarrow> unknown_error e
      | Inr None \<Rightarrow> oauth_error ERRORS ''eua'' ''invalid_client''
      | Inr (Some client) \<Rightarrow>
          if Some (c_redirect_uri client) \<noteq> ps ''redirect_uri''
          then oauth_error ERRORS ''eua'' ''redirect_uri_mismatch''
          else [Login \<lparr>client_id = c_id client, client_name = c_name client,
                       redirect_uri = the (ps ''redirect_uri''), state = ps ''state''\<rparr>])"

text \<open>The branch on \<^verbatim>\<open>params.response_type != "code"\<close> has no \<^verbatim>\<open>return\<close>: what follows
  it runs in both cases.\<close>

definition authorize :: "errors \<Rightarrow> R \<Rightarrow> params \<Rightarrow> action list" where
  "authorize ERRORS r ps =
     (if missing_mandatory eua_mandatory ps
      then oauth_error ERRORS ''eua'' ''invalid_request''
      else if \<not> response_types_has (the (ps ''response_type''))
      then oauth_error ERRORS ''eua'' ''unsupported_response_type''
      else (if ps ''response_type'' \<noteq> Some ''code'' then not_implemented else [])
           @ authorize_client ERRORS r ps)"

text \<open>
  \<open>parse_query u\<close> is \<^verbatim>\<open>URL.parse(u, true).query\<close>, a function of the runtime: an
  object, which is truthy whatever it holds, or \<^verbatim>\<open>undefined\<close>. The connector routes
  both GET and POST on the authorize URL to this handler, which does not look at the
  method.
\<close>

definition authorize_endpoint ::
  "errors \<Rightarrow> (string \<Rightarrow> params option) \<Rightarrow> R \<Rightarrow> req \<Rightarrow> action list" where
  "authorize_endpoint ERRORS parse_query r rq =
     (case parse_query (url rq) of
        Some ps \<Rightarrow> authorize ERRORS r ps
      | None \<Rightarrow>
          (case form rq of
             None \<Rightarrow> oauth_error ERRORS ''eua'' ''invalid_request''
           | Some (Complete_err e) \<Rightarrow> oauth_error ERRORS ''eua'' ''invalid_request''
           | Some (Complete fs) \<Rightarrow> authorize ERRORS r fs))"

subsection \<open>The conditions of a redemption\<close>

text \<open>
  The conditions under which the specification lets a code be redeemed, in its words: the
  code splits on the delimiter into exactly an id and a code, a grant of that id exists,
  the grant is within the freshness window, its client is the redeeming client, its code
  is the presented code. \<open>redeemable\<close> is that grant, with the window as
  \<^verbatim>\<open>valid_grant\<close> has it: at most 60000 ms have passed since the grant was issued.
\<close>

definition redeemable :: "R \<Rightarrow> int \<Rightarrow> data \<Rightarrow> grant option" where
  "redeemable r now d =
     (case js_split CHR ''|'' (d_code d) of
        [i, c] \<Rightarrow>
          (case Grant_get_ids r i of
             None \<Rightarrow> None
           | Some g \<Rightarrow>
               if now - g_time g \<le> 60000 \<and> g_client_id g = d_client_id d \<and> g_code g = c
               then Some g else None)
      | _ \<Rightarrow> None)"

text \<open>The window as the specification words it: \<open>T \<le> now < T + 60 s\<close>.\<close>

definition strict_window :: "int \<Rightarrow> grant \<Rightarrow> bool" where
  "strict_window now g = (g_time g \<le> now \<and> now < g_time g + 60000)"

subsection \<open>A scenario\<close>

text \<open>Client \<open>C1\<close> with its redirect target and secret, a grant \<open>g1\<close> issued to it for
  user \<open>U1\<close> at time 1000, and the code \<open>g1|abc\<close> presented by \<open>C1\<close>.\<close>

definition client1 :: client where
  "client1 = \<lparr>c_id = ''C1'', c_secret = ''s1'', c_redirect_uri = ''https://c1/cb'',
               c_name = ''App''\<rparr>"

definition grant1 :: grant where
  "grant1 = \<lparr>g_id = ''g1'', g_client_id = ''C1'', g_time = 1000, g_user_id = ''U1'',
              g_code = ''abc''\<rparr>"

definition store1 :: R where
  "store1 = \<lparr>Client = [client1], Grant = [grant1], fault = []\<rparr>"

definition data1 :: data where
  "data1 = \<lparr>d_code = ''g1|abc'', d_client_id = ''C1''\<rparr>"

definition lost :: err where
  "lost = \<lparr>message = ''connection lost'', stack = ''at store''\<rparr>"

definition token1 :: token where
  "token1 = \<lparr>access_token = ''U1,C1''\<rparr>"

definition descriptions :: errors where
  "descriptions type ident = ''description''"

text \<open>The fields of the token request of \<open>C1\<close> for that code, without a secret, and the
  request that carries them in its form.\<close>

definition fields1 :: params where
  "fields1 = [''grant_type'' \<mapsto> ''authorization_code'', ''client_id'' \<mapsto> ''C1'',
              ''code'' \<mapsto> ''g1|abc'', ''redirect_uri'' \<mapsto> ''https://c1/cb'']"

definition request1 :: req where
  "request1 = \<lparr>url = ''/oauth2/token'', headers = Map.empty, form = Some (Complete fields1)\<rparr>"

text \<open>The parameters of the authorization request of \<open>C1\<close>, and the context that the login
  flow hands to \<^verbatim>\<open>send_grant\<close>.\<close>

definition query1 :: params where
  "query1 = [''client_id'' \<mapsto> ''C1'', ''response_type'' \<mapsto> ''code'',
             ''redirect_uri'' \<mapsto> ''https://c1/cb'']"

definition client_data1 :: client_data where
  "client_data1 = \<lparr>client_id = ''C1'', client_name = ''App'',
     redirect_uri = ''https://c1/cb'', state = Some ''xyz''\<rparr>"

text \<open>A stand-in for \<^verbatim>\<open>querystring.stringify\<close> in the scenario: it joins the pairs and
  escapes nothing.\<close>

fun join_qs :: "(string \<times> string) list \<Rightarrow> string" where
  "join_qs [] = []"
| "join_qs [(k, v)] = k @ ''='' @ v"
| "join_qs ((k, v) # kvs) = k @ ''='' @ v @ ''&'' @ join_qs kvs"

text \<open>
  A stand-in for \<^verbatim>\<open>URL.parse(u, true).query\<close> in the scenario, for the runtime that
  gives an object to every URL: the pairs of the query string, unescaped, and the empty
  object when the URL has no query string.
\<close>

definition pair_of :: "string \<Rightarrow> string \<times> string" where
  "pair_of s =
     (takeWhile (\<lambda>c. c \<noteq> CHR ''='') s, drop 1 (dropWhile (\<lambda>c. c \<noteq> CHR ''='') s))"

definition query_object :: "string \<Rightarrow> params option" where
  "query_object u =
     (case dropWhile (\<lambda>c. c \<noteq> CHR ''?'') u of
        [] \<Rightarrow> Some Map.empty
      | m # q \<Rightarrow>
          Some (map_of (map pair_of (filter (\<lambda>s. s \<noteq> []) (js_split CHR ''&'' q)))))"

text \<open>The authorization request of \<open>C1\<close> as a POST: no query string, the parameters in
  the form.\<close>

definition post1 :: req where
  "post1 = \<lparr>url = ''/oauth2/authorize'', headers = Map.empty, form = Some (Complete query1)\<rparr>"

section \<open>Properties\<close>

lemma js_split_not_Nil: "js_split c s \<noteq> []"
  by (induction s) auto

lemma length_js_split: "length (js_split c s) = Suc (count_list s c)"
proof (induction s)
  case Nil
  show ?case by simp
next
  case (Cons x xs)
  have "length (tl (js_split c xs)) = count_list xs c"
    using Cons.IH by simp
  then show ?case using Cons.IH by simp
qed

text \<open>A call of \<^verbatim>\<open>valid_grant\<close> in terms of the conditions of the specification: it
  reaches the delete exactly with the grant that is redeemable.\<close>

lemma valid_grant_redeemable:
  "valid_grant r now d =
     (case redeemable r now d of
        None \<Rightarrow> (Callback None, r)
      | Some g \<Rightarrow> valid_grant_delete r g)"
  by (simp add: valid_grant_def valid_grant_lookup_def valid_grant_finish_def redeemable_def
      Let_def split: list.splits option.splits)

text \<open>The conditions, one by one.\<close>

lemma redeemable_Some_iff:
  "(redeemable r now d = Some g) =
     (\<exists>i c. js_split CHR ''|'' (d_code d) = [i, c] \<and> Grant_get_ids r i = Some g \<and>
            now - g_time g \<le> 60000 \<and> g_client_id g = d_client_id d \<and> g_code g = c)"
  by (auto simp add: redeemable_def split: list.splits option.splits if_splits)

subsection \<open>Malformed codes\<close>

text \<open>
  C6. A presented code that does not split on the delimiter into exactly two parts, which
  is a code with no delimiter or with two or more, is answered \<^verbatim>\<open>callback(null)\<close>: the
  redeemer returns, does not call the fallback and leaves the store as it was.
\<close>

theorem valid_grant_malformed_code:
  "(length (js_split CHR ''|'' (d_code d)) \<noteq> 2) = (count_list (d_code d) CHR ''|'' \<noteq> 1) \<and>
   (count_list (d_code d) CHR ''|'' \<noteq> 1 \<longrightarrow> valid_grant r now d = (Callback None, r))"
proof -
  have arity:
    "(length (js_split CHR ''|'' (d_code d)) \<noteq> 2) = (count_list (d_code d) CHR ''|'' \<noteq> 1)"
    by (simp add: length_js_split)
  have "valid_grant r now d = (Callback None, r)" if "count_list (d_code d) CHR ''|'' \<noteq> 1"
  proof -
    from that arity have "length (js_split CHR ''|'' (d_code d)) \<noteq> 2" by simp
    then show ?thesis
      by (simp add: valid_grant_def valid_grant_lookup_def valid_grant_finish_def)
  qed
  with arity show ?thesis by simp
qed

theorem valid_grant_malformed_code_witness:
  "count_list ''g1|abc|x'' CHR ''|'' \<noteq> 1 \<and>
   valid_grant store1 1000 \<lparr>d_code = ''g1|abc|x'', d_client_id = ''C1''\<rparr>
     = (Callback None, store1) \<and>
   count_list ''g1abc'' CHR ''|'' \<noteq> 1 \<and>
   valid_grant store1 1000 \<lparr>d_code = ''g1abc'', d_client_id = ''C1''\<rparr>
     = (Callback None, store1)"
  using valid_grant_malformed_code [of "\<lparr>d_code = ''g1|abc|x'', d_client_id = ''C1''\<rparr>" store1 1000]
    valid_grant_malformed_code [of "\<lparr>d_code = ''g1abc'', d_client_id = ''C1''\<rparr>" store1 1000]
  by simp

subsection \<open>Redemption\<close>

lemma valid_grant_delete_cases:
  "valid_grant_delete r g =
     (case map_of (fault r) Grant_delete of
        Some e \<Rightarrow> (Fallback e, r)
      | None \<Rightarrow>
          (Callback (Some \<lparr>access_token = g_user_id g @ '','' @ g_client_id g\<rparr>),
           r\<lparr>Grant := filter (\<lambda>h. g_id h \<noteq> g_id g) (Grant r)\<rparr>))"
  by (simp add: valid_grant_delete_def delete_grant_def create_access_token_def
      split: option.splits)

lemma redeemable_store1: "redeemable (store1\<lparr>fault := f\<rparr>) 1000 data1 = Some grant1"
  by (simp add: redeemable_def Grant_get_ids_def store1_def data1_def grant1_def)

lemma oauth_error_400:
  "oauth_error ERRORS type ident =
     [WriteHead 400 [(''Content-Type'', ''text/html'')],
      End (JSON (JObj [(''error'', JObj
        [(''type'', JStr ''OAuthException''),
         (''message'', JStr (ident @ '': '' @ ERRORS type ident))])]))]"
  by (simp add: oauth_error_def)

text \<open>
  C1, as stated, at a store that fails the delete: every condition of the claim holds for
  the presented code, and the redeemer calls the fallback with the error of the store
  instead of producing a token.
\<close>

theorem valid_grant_failed_delete_counterexample:
  "redeemable (store1\<lparr>fault := [(Grant_delete, lost)]\<rparr>) 1000 data1 = Some grant1 \<and>
   valid_grant (store1\<lparr>fault := [(Grant_delete, lost)]\<rparr>) 1000 data1
     = (Fallback lost, store1\<lparr>fault := [(Grant_delete, lost)]\<rparr>)"
  by (simp add: valid_grant_redeemable valid_grant_delete_cases redeemable_store1)

text \<open>
  C1, amended. \<^verbatim>\<open>valid_grant\<close> produces a token if and only if the presented code splits
  into exactly an id and a code, a grant of that id exists, the grant is within the
  freshness window, its client is the redeeming client, its code is the presented code,
  and the delete of the grant succeeds. The access token is then the user id of the grant,
  a comma and its client id, and the grant is gone from the store. When one of the
  conditions on the code fails, the result is \<^verbatim>\<open>callback(null)\<close> and the store is as it
  was. When they all hold and the store fails the delete, the fallback receives the error
  of the store, no token is produced and the store is as it was. The window is the one
  that \<^verbatim>\<open>valid_grant\<close> tests, which the section on the freshness window settles.
\<close>

theorem valid_grant_token_iff:
  "(fst (valid_grant r now d) = Callback (Some t)) =
     (\<exists>g. redeemable r now d = Some g \<and> map_of (fault r) Grant_delete = None \<and>
          t = \<lparr>access_token = g_user_id g @ '','' @ g_client_id g\<rparr>) \<and>
   (redeemable r now d = None \<longrightarrow> valid_grant r now d = (Callback None, r)) \<and>
   (redeemable r now d = Some g \<and> map_of (fault r) Grant_delete = Some e \<longrightarrow>
      valid_grant r now d = (Fallback e, r)) \<and>
   (redeemable r now d = Some g \<and> map_of (fault r) Grant_delete = None \<longrightarrow>
      valid_grant r now d =
        (Callback (Some \<lparr>access_token = g_user_id g @ '','' @ g_client_id g\<rparr>),
         r\<lparr>Grant := filter (\<lambda>h. g_id h \<noteq> g_id g) (Grant r)\<rparr>))"
proof -
  have token: "(fst (valid_grant r now d) = Callback (Some t)) =
     (\<exists>g. redeemable r now d = Some g \<and> map_of (fault r) Grant_delete = None \<and>
          t = \<lparr>access_token = g_user_id g @ '','' @ g_client_id g\<rparr>)"
    by (auto simp add: valid_grant_redeemable valid_grant_delete_cases split: option.splits)
  have invalid: "redeemable r now d = None \<longrightarrow> valid_grant r now d = (Callback None, r)"
    by (simp add: valid_grant_redeemable)
  have failed: "redeemable r now d = Some g \<and> map_of (fault r) Grant_delete = Some e \<longrightarrow>
      valid_grant r now d = (Fallback e, r)"
    by (simp add: valid_grant_redeemable valid_grant_delete_cases)
  have deleted: "redeemable r now d = Some g \<and> map_of (fault r) Grant_delete = None \<longrightarrow>
      valid_grant r now d =
        (Callback (Some \<lparr>access_token = g_user_id g @ '','' @ g_client_id g\<rparr>),
         r\<lparr>Grant := filter (\<lambda>h. g_id h \<noteq> g_id g) (Grant r)\<rparr>)"
    by (simp add: valid_grant_redeemable valid_grant_delete_cases)
  from token invalid failed deleted show ?thesis by (intro conjI)
qed

theorem valid_grant_token_iff_witness:
  "fst (valid_grant store1 1000 data1) = Callback (Some token1) \<and>
   valid_grant store1 1000 data1 = (Callback (Some token1), store1\<lparr>Grant := []\<rparr>) \<and>
   redeemable store1 61001 data1 = None \<and>
   valid_grant store1 61001 data1 = (Callback None, store1) \<and>
   map_of (fault (store1\<lparr>fault := [(Grant_delete, lost)]\<rparr>)) Grant_delete = Some lost \<and>
   valid_grant (store1\<lparr>fault := [(Grant_delete, lost)]\<rparr>) 1000 data1
     = (Fallback lost, store1\<lparr>fault := [(Grant_delete, lost)]\<rparr>)"
proof -
  let ?broken = "store1\<lparr>fault := [(Grant_delete, lost)]\<rparr>"
  have a: "redeemable store1 1000 data1 = Some grant1"
    by (simp add: redeemable_def Grant_get_ids_def store1_def data1_def grant1_def)
  have a': "redeemable ?broken 1000 data1 = Some grant1"
    by (simp add: redeemable_def Grant_get_ids_def store1_def data1_def grant1_def)
  have b: "redeemable store1 61001 data1 = None"
    by (simp add: redeemable_def Grant_get_ids_def store1_def data1_def grant1_def)
  have c: "map_of (fault store1) Grant_delete = None"
    by (simp add: store1_def)
  have c': "map_of (fault ?broken) Grant_delete = Some lost"
    by simp
  have d: "token1 = \<lparr>access_token = g_user_id grant1 @ '','' @ g_client_id grant1\<rparr>"
    by (simp add: token1_def grant1_def)
  have f: "store1\<lparr>Grant := filter (\<lambda>h. g_id h \<noteq> g_id grant1) (Grant store1)\<rparr>
      = store1\<lparr>Grant := []\<rparr>"
    by (simp add: store1_def)
  note ok = valid_grant_token_iff [where r = store1 and now = 1000 and d = data1
      and t = token1 and g = grant1 and e = lost]
  note late = valid_grant_token_iff [where r = store1 and now = 61001 and d = data1
      and t = token1 and g = grant1 and e = lost]
  note broken = valid_grant_token_iff [where r = ?broken and now = 1000 and d = data1
      and t = token1 and g = grant1 and e = lost]
  from a c d ok have "fst (valid_grant store1 1000 data1) = Callback (Some token1)"
    by blast
  moreover from a c ok have "valid_grant store1 1000 data1 =
      (Callback (Some \<lparr>access_token = g_user_id grant1 @ '','' @ g_client_id grant1\<rparr>),
       store1\<lparr>Grant := filter (\<lambda>h. g_id h \<noteq> g_id grant1) (Grant store1)\<rparr>)"
    by blast
  then have "valid_grant store1 1000 data1 = (Callback (Some token1), store1\<lparr>Grant := []\<rparr>)"
    using d f by simp
  moreover from b late have "valid_grant store1 61001 data1 = (Callback None, store1)"
    by blast
  moreover from a' c' broken have "valid_grant ?broken 1000 data1 = (Fallback lost, ?broken)"
    by blast
  ultimately show ?thesis using b c' by simp
qed

subsection \<open>The freshness window\<close>

text \<open>
  C3, as stated, at the grant \<open>g1\<close> issued at 1000 and presented at 61000, which is
  60 s later exactly: the time is outside the window \<open>T \<le> now < T + 60 s\<close>, and the
  redeemer produces the token.
\<close>

theorem valid_grant_boundary_counterexample:
  "61000 = g_time grant1 + 60000 \<and> \<not> strict_window 61000 grant1 \<and>
   Grant_get_ids store1 ''g1'' = Some grant1 \<and>
   fst (valid_grant store1 61000 data1) = Callback (Some token1)"
  by (simp add: valid_grant_redeemable valid_grant_delete_cases redeemable_def strict_window_def
      Grant_get_ids_def store1_def data1_def grant1_def token1_def)

text \<open>
  C3, amended. A grant issued at time \<open>T\<close> is redeemable only when it is presented at a
  time \<open>now \<le> T + 60000\<close> (in ms): at any later time the redemption is answered
  \<^verbatim>\<open>callback(null)\<close>, and at any time up to and including \<open>T + 60000\<close> a code whose
  other checks pass is redeemed, the delete succeeding. The test is
  \<^verbatim>\<open>grant.time < Date.now() - 60000\<close>; there is no test of \<open>T \<le> now\<close>.
\<close>

theorem valid_grant_window:
  "js_split CHR ''|'' (d_code d) = [i, c] \<Longrightarrow> Grant_get_ids r i = Some g \<Longrightarrow>
   ((\<exists>t. fst (valid_grant r now d) = Callback (Some t)) \<longrightarrow> now \<le> g_time g + 60000) \<and>
   (g_time g + 60000 < now \<longrightarrow> valid_grant r now d = (Callback None, r)) \<and>
   (now \<le> g_time g + 60000 \<and> g_client_id g = d_client_id d \<and> g_code g = c \<and>
    map_of (fault r) Grant_delete = None \<longrightarrow>
      fst (valid_grant r now d)
        = Callback (Some \<lparr>access_token = g_user_id g @ '','' @ g_client_id g\<rparr>))"
  by (auto simp add: valid_grant_redeemable valid_grant_delete_cases redeemable_def
      split: option.splits if_splits)

theorem valid_grant_window_witness:
  "js_split CHR ''|'' (d_code data1) = [''g1'', ''abc''] \<and>
   Grant_get_ids store1 ''g1'' = Some grant1 \<and>
   g_time grant1 + 60000 < 61001 \<and>
   valid_grant store1 61001 data1 = (Callback None, store1) \<and>
   fst (valid_grant store1 (g_time grant1 + 60000) data1) = Callback (Some token1)"
proof -
  have s: "js_split CHR ''|'' (d_code data1) = [''g1'', ''abc'']"
    by (simp add: data1_def)
  have g: "Grant_get_ids store1 ''g1'' = Some grant1"
    by (simp add: Grant_get_ids_def store1_def grant1_def)
  have late: "g_time grant1 + 60000 < 61001"
    by (simp add: grant1_def)
  have rest: "g_client_id grant1 = d_client_id data1 \<and> g_code grant1 = ''abc'' \<and>
      map_of (fault store1) Grant_delete = None"
    by (simp add: grant1_def data1_def store1_def)
  have tok: "\<lparr>access_token = g_user_id grant1 @ '','' @ g_client_id grant1\<rparr> = token1"
    by (simp add: token1_def grant1_def)
  from valid_grant_window [OF s g, of 61001] late
  have "valid_grant store1 61001 data1 = (Callback None, store1)" by blast
  moreover from valid_grant_window [OF s g, of "g_time grant1 + 60000"] rest tok
  have "fst (valid_grant store1 (g_time grant1 + 60000) data1) = Callback (Some token1)"
    by simp
  ultimately show ?thesis using s g late by simp
qed

subsection \<open>Redeeming a code twice\<close>

text \<open>When the second call is made after the first has called back with a token, the
  second is answered \<^verbatim>\<open>callback(null)\<close>: the grant of that id is gone.\<close>

lemma Grant_get_ids_deleted:
  "Grant_get_ids (r\<lparr>Grant := filter (\<lambda>h. g_id h \<noteq> i) (Grant r)\<rparr>) i = None"
  by (simp add: Grant_get_ids_def find_None_iff)

lemma redeemable_id:
  "redeemable r now d = Some g \<Longrightarrow> \<exists>c. js_split CHR ''|'' (d_code d) = [g_id g, c]"
  by (auto simp add: redeemable_def Grant_get_ids_def find_Some_iff
      split: list.splits option.splits if_splits)

lemma valid_grant_twice_second_null:
  assumes "fst (valid_grant r now1 d1) = Callback (Some t)" and "d_code d2 = d_code d1"
  shows "\<exists>r'. valid_grant_twice r now1 d1 now2 d2 = (Callback (Some t), Callback None, r')"
proof -
  from assms(1) obtain g where g: "redeemable r now1 d1 = Some g"
    and f: "map_of (fault r) Grant_delete = None"
    by (auto simp add: valid_grant_redeemable valid_grant_delete_cases split: option.splits)
  let ?r1 = "r\<lparr>Grant := filter (\<lambda>h. g_id h \<noteq> g_id g) (Grant r)\<rparr>"
  from g f assms(1) have first: "valid_grant r now1 d1 = (Callback (Some t), ?r1)"
    by (simp add: valid_grant_redeemable valid_grant_delete_cases)
  from redeemable_id [OF g] assms(2)
  obtain c where "js_split CHR ''|'' (d_code d2) = [g_id g, c]"
    by auto
  then have "redeemable ?r1 now2 d2 = None"
    by (simp add: redeemable_def Grant_get_ids_deleted)
  then have "valid_grant ?r1 now2 d2 = (Callback None, ?r1)"
    by (simp add: valid_grant_redeemable)
  with first show ?thesis
    by (simp add: valid_grant_twice_def)
qed

text \<open>When the lookups of two calls are both answered before either delete runs, and both
  find the grant redeemable, both calls produce the token.\<close>

lemma valid_grant_lookup_redeemable:
  "valid_grant_lookup r now d =
     (case redeemable r now d of
        None \<Rightarrow> Finished (Callback None)
      | Some g \<Rightarrow> Deleting g)"
  by (simp add: valid_grant_lookup_def redeemable_def Let_def split: list.splits option.splits)

lemma valid_grant_overlapped_both:
  assumes "redeemable r now1 d1 = Some g" and "redeemable r now2 d2 = Some g"
    and "map_of (fault r) Grant_delete = None"
  shows "fst (valid_grant_overlapped r now1 d1 now2 d2)
           = Callback (Some \<lparr>access_token = g_user_id g @ '','' @ g_client_id g\<rparr>) \<and>
         fst (snd (valid_grant_overlapped r now1 d1 now2 d2))
           = Callback (Some \<lparr>access_token = g_user_id g @ '','' @ g_client_id g\<rparr>)"
  using assms
  by (simp add: valid_grant_overlapped_def valid_grant_lookup_redeemable valid_grant_finish_def
      valid_grant_delete_cases)

text \<open>
  C2. Two token requests that present the code \<open>g1|abc\<close> are in flight together, and
  the store answers the lookup of the second before it runs the delete of the first. Each
  call of \<^verbatim>\<open>valid_grant\<close> finds the grant, passes the checks and calls back with a token:
  the code is redeemed twice.
\<close>

theorem valid_grant_overlapped_two_tokens:
  "valid_grant_overlapped store1 1000 data1 1001 data1
     = (Callback (Some token1), Callback (Some token1), store1\<lparr>Grant := []\<rparr>)"
  by (simp add: valid_grant_overlapped_def valid_grant_lookup_def valid_grant_finish_def
      valid_grant_delete_cases Grant_get_ids_def store1_def data1_def grant1_def token1_def)

subsection \<open>Rejected redemptions\<close>

text \<open>
  C5. When one of the validity checks of a redemption fails, \<^verbatim>\<open>valid_grant\<close> calls
  \<^verbatim>\<open>callback(null)\<close> and leaves the store as it was; \<^verbatim>\<open>token_endpoint\<close>, which made the
  call for an authenticated client, then answers with status 400 and the error
  \<open>invalid_grant\<close>, the store unchanged. \<^verbatim>\<open>valid_grant\<close> calls the fallback, which is the
  unknown-error path, only when the checks have passed and the store fails the delete.
\<close>

theorem rejected_redemption:
  "(redeemable r now d = None \<longrightarrow> valid_grant r now d = (Callback None, r)) \<and>
   (fst (valid_grant r now d) = Fallback e \<longrightarrow>
      redeemable r now d \<noteq> None \<and> map_of (fault r) Grant_delete = Some e) \<and>
   (Client_get_ids r (the (ps ''client_id'')) = Inr (Some cl) \<and>
    Some (c_secret cl) = ps ''client_secret'' \<and>
    Some (c_redirect_uri cl) = ps ''redirect_uri'' \<and>
    redeemable r now \<lparr>d_code = the (ps ''code''), d_client_id = c_id cl\<rparr> = None \<longrightarrow>
      token_client ERRORS r now ps =
        ([WriteHead 400 [(''Content-Type'', ''text/html'')],
          End (JSON (JObj [(''error'', JObj
            [(''type'', JStr ''OAuthException''),
             (''message'', JStr (''invalid_grant: '' @ ERRORS ''oat'' ''invalid_grant''))])]))],
         r))"
proof -
  have invalid: "redeemable r now d = None \<longrightarrow> valid_grant r now d = (Callback None, r)"
    by (simp add: valid_grant_redeemable)
  have unknown: "fst (valid_grant r now d) = Fallback e \<longrightarrow>
      redeemable r now d \<noteq> None \<and> map_of (fault r) Grant_delete = Some e"
    by (auto simp add: valid_grant_redeemable valid_grant_delete_cases split: option.splits)
  have caller: "token_client ERRORS r now ps =
        ([WriteHead 400 [(''Content-Type'', ''text/html'')],
          End (JSON (JObj [(''error'', JObj
            [(''type'', JStr ''OAuthException''),
             (''message'', JStr (''invalid_grant: '' @ ERRORS ''oat'' ''invalid_grant''))])]))],
         r)"
    if "Client_get_ids r (the (ps ''client_id'')) = Inr (Some cl)"
      and "Some (c_secret cl) = ps ''client_secret''"
      and "Some (c_redirect_uri cl) = ps ''redirect_uri''"
      and "redeemable r now \<lparr>d_code = the (ps ''code''), d_client_id = c_id cl\<rparr> = None"
    using that
    by (simp add: token_client_def valid_grant_redeemable token_reply_def oauth_error_400)
  from invalid unknown caller show ?thesis by blast
qed

theorem rejected_redemption_witness:
  "redeemable store1 61001 data1 = None \<and>
   valid_grant store1 61001 data1 = (Callback None, store1) \<and>
   fst (token_client descriptions store1 61001 (fields1(''client_secret'' \<mapsto> ''s1'')))
     = oauth_error descriptions ''oat'' ''invalid_grant'' \<and>
   snd (token_client descriptions store1 61001 (fields1(''client_secret'' \<mapsto> ''s1''))) = store1"
proof -
  let ?ps = "fields1(''client_secret'' \<mapsto> ''s1'')"
  have d: "\<lparr>d_code = the (?ps ''code''), d_client_id = c_id client1\<rparr> = data1"
    by (simp add: fields1_def data1_def client1_def)
  have a: "redeemable store1 61001 data1 = None"
    by (simp add: redeemable_def Grant_get_ids_def store1_def data1_def grant1_def)
  have c: "Client_get_ids store1 (the (?ps ''client_id'')) = Inr (Some client1)"
    by (simp add: Client_get_ids_def store1_def fields1_def client1_def)
  have s: "Some (c_secret client1) = ?ps ''client_secret''"
    by (simp add: client1_def)
  have u: "Some (c_redirect_uri client1) = ?ps ''redirect_uri''"
    by (simp add: client1_def fields1_def)
  from rejected_redemption [of store1 61001 data1 lost ?ps client1 descriptions] a c s u d
  show ?thesis
    by (simp add: oauth_error_400)
qed

subsection \<open>The client secret of a token request\<close>

text \<open>What \<^verbatim>\<open>token_endpoint\<close> does with the header and the field, for a request whose form
  holds the mandatory fields and the grant type \<open>authorization_code\<close>.\<close>

lemma token_endpoint_secret_cases:
  assumes "form rq = Some (Complete ps)" and "\<not> missing_mandatory oat_mandatory ps"
    and "ps ''grant_type'' = Some ''authorization_code''"
  shows "token_endpoint ERRORS r now rq =
     (if truthy (headers rq ''authorization'') then
        (if truthy (ps ''client_secret'')
         then (oauth_error ERRORS ''oat'' ''invalid_request'', r)
         else token_client ERRORS r now
                (ps(''client_secret'' \<mapsto> drop 6 (the (headers rq ''authorization'')))))
      else if truthy (ps ''client_secret'') then token_client ERRORS r now ps
      else (oauth_error ERRORS ''oat'' ''invalid_request'', r))"
  using assms by (simp add: token_endpoint_def slice_def Let_def)

lemma token_client_wrong_secret:
  "Client_get_ids r (the (ps ''client_id'')) = Inr (Some cl) \<Longrightarrow>
   ps ''client_secret'' \<noteq> Some (c_secret cl) \<Longrightarrow>
   token_client ERRORS r now ps = (oauth_error ERRORS ''oat'' ''invalid_client'', r)"
  by (auto simp add: token_client_def)

lemma request1_checks:
  "\<not> missing_mandatory oat_mandatory (fields1(''client_secret'' := v)) \<and>
   (fields1(''client_secret'' := v)) ''grant_type'' = Some ''authorization_code''"
  by (simp add: missing_mandatory_def oat_mandatory_def fields1_def truthy_def)

text \<open>
  C7, as stated, at a token request of \<open>C1\<close> that has the header
  \<^verbatim>\<open>Authorization: Basic s1\<close> and, in its form, the field \<^verbatim>\<open>client_secret\<close> with the
  empty string as its value: both are present, and the request is not rejected. The
  header gives the secret and the token is issued.
\<close>

theorem token_endpoint_empty_secret_counterexample:
  "headers (request1\<lparr>headers := [''authorization'' \<mapsto> ''Basic s1''],
              form := Some (Complete (fields1(''client_secret'' \<mapsto> '''')))\<rparr>) ''authorization''
     = Some ''Basic s1'' \<and>
   (fields1(''client_secret'' \<mapsto> '''')) ''client_secret'' = Some '''' \<and>
   token_endpoint descriptions store1 1000
     (request1\<lparr>headers := [''authorization'' \<mapsto> ''Basic s1''],
               form := Some (Complete (fields1(''client_secret'' \<mapsto> '''')))\<rparr>)
     = ([WriteHead 200 [(''Content-Type'', ''application/json''),
                        (''Cache-Control'', ''no-store'')],
         End (JSON (JObj [(''access_token'', JStr ''U1,C1'')]))],
        store1\<lparr>Grant := []\<rparr>)"
  by (simp add: token_endpoint_def token_client_def token_reply_def missing_mandatory_def
      oat_mandatory_def truthy_def slice_def request1_def fields1_def Client_get_ids_def
      store1_def client1_def grant1_def valid_grant_redeemable valid_grant_delete_cases
      redeemable_def Grant_get_ids_def)

text \<open>
  C7, amended. In \<^verbatim>\<open>token_endpoint\<close> the client secret must be supplied exactly once,
  where supplied means present and not the empty string: if both the
  \<^verbatim>\<open>Authorization\<close> header and the \<^verbatim>\<open>client_secret\<close> field are supplied, the request is
  rejected with \<open>invalid_request\<close> whatever the two values are; if neither is, it is
  rejected with \<open>invalid_request\<close>; when only the header is, its first 6 characters are
  dropped and the rest is the secret that is compared with the secret of the client; when
  only the field is, the field is that secret.
\<close>

theorem token_endpoint_secret_once:
  "form rq = Some (Complete ps) \<Longrightarrow> \<not> missing_mandatory oat_mandatory ps \<Longrightarrow>
   ps ''grant_type'' = Some ''authorization_code'' \<Longrightarrow>
   (truthy (headers rq ''authorization'') \<and> truthy (ps ''client_secret'') \<longrightarrow>
      token_endpoint ERRORS r now rq = (oauth_error ERRORS ''oat'' ''invalid_request'', r)) \<and>
   (\<not> truthy (headers rq ''authorization'') \<and> \<not> truthy (ps ''client_secret'') \<longrightarrow>
      token_endpoint ERRORS r now rq = (oauth_error ERRORS ''oat'' ''invalid_request'', r)) \<and>
   (headers rq ''authorization'' = Some h \<and> h \<noteq> [] \<and> \<not> truthy (ps ''client_secret'') \<longrightarrow>
      token_endpoint ERRORS r now rq
        = token_client ERRORS r now (ps(''client_secret'' \<mapsto> drop 6 h))) \<and>
   (\<not> truthy (headers rq ''authorization'') \<and> truthy (ps ''client_secret'') \<longrightarrow>
      token_endpoint ERRORS r now rq = token_client ERRORS r now ps)"
  by (simp add: token_endpoint_secret_cases) (simp add: truthy_def)

theorem token_endpoint_secret_once_witness:
  "token_endpoint descriptions store1 1000
     (request1\<lparr>headers := [''authorization'' \<mapsto> ''Basic s1''],
               form := Some (Complete (fields1(''client_secret'' \<mapsto> ''s1'')))\<rparr>)
     = (oauth_error descriptions ''oat'' ''invalid_request'', store1) \<and>
   token_endpoint descriptions store1 1000 request1
     = (oauth_error descriptions ''oat'' ''invalid_request'', store1) \<and>
   token_endpoint descriptions store1 1000
     (request1\<lparr>headers := [''authorization'' \<mapsto> ''Basic s1'']\<rparr>)
     = token_client descriptions store1 1000 (fields1(''client_secret'' \<mapsto> ''s1''))"
proof -
  let ?both = "request1\<lparr>headers := [''authorization'' \<mapsto> ''Basic s1''],
               form := Some (Complete (fields1(''client_secret'' \<mapsto> ''s1'')))\<rparr>"
  let ?header = "request1\<lparr>headers := [''authorization'' \<mapsto> ''Basic s1'']\<rparr>"
  have f1: "form ?both = Some (Complete (fields1(''client_secret'' \<mapsto> ''s1'')))"
    by simp
  have f2: "form request1 = Some (Complete fields1)" "form ?header = Some (Complete fields1)"
    by (simp_all add: request1_def)
  have m1: "\<not> missing_mandatory oat_mandatory (fields1(''client_secret'' \<mapsto> ''s1''))"
    "(fields1(''client_secret'' \<mapsto> ''s1'')) ''grant_type'' = Some ''authorization_code''"
    using request1_checks [of "Some ''s1''"] by simp_all
  have m2: "\<not> missing_mandatory oat_mandatory fields1"
    "fields1 ''grant_type'' = Some ''authorization_code''"
    by (simp_all add: missing_mandatory_def oat_mandatory_def fields1_def truthy_def)
  have none: "fields1 ''client_secret'' = None"
    by (simp add: fields1_def)
  have a: "token_endpoint descriptions store1 1000 ?both
     = (oauth_error descriptions ''oat'' ''invalid_request'', store1)"
    using token_endpoint_secret_once [OF f1 m1, of descriptions store1 1000 "''Basic s1''"]
    by (simp add: truthy_def)
  have b: "token_endpoint descriptions store1 1000 request1
     = (oauth_error descriptions ''oat'' ''invalid_request'', store1)"
    using token_endpoint_secret_once [OF f2(1) m2, of descriptions store1 1000 "''Basic s1''"] none
    by (simp add: truthy_def request1_def)
  have c: "token_endpoint descriptions store1 1000 ?header
     = token_client descriptions store1 1000 (fields1(''client_secret'' \<mapsto> ''s1''))"
    using token_endpoint_secret_once [OF f2(2) m2, of descriptions store1 1000 "''Basic s1''"] none
    by (simp add: truthy_def)
  from a b c show ?thesis by simp
qed

subsection \<open>Issuing a grant\<close>

lemma find_append_None: "find P xs = None \<Longrightarrow> find P (xs @ ys) = find P ys"
  by (induction xs) (simp_all split: if_splits)

text \<open>
  C8, as stated, at a client context whose \<^verbatim>\<open>state\<close> is present and is the empty string:
  the redirect carries the code and no \<^verbatim>\<open>state\<close> parameter.
\<close>

theorem send_grant_empty_state_counterexample:
  "state (client_data1\<lparr>state := Some ''''\<rparr>) = Some '''' \<and>
   fst (send_grant join_qs 1000 ''abc'' ''g2'' store1 ''U1'' (client_data1\<lparr>state := Some ''''\<rparr>))
     = [Redirect ''https://c1/cb?code=g2|abc'']"
  by (simp add: send_grant_def save_grant_def store1_def client_data1_def truthy_def Let_def)

text \<open>
  C8, amended. \<^verbatim>\<open>send_grant\<close> redirects the user agent if and only if the store saved the
  new grant. The target is the \<^verbatim>\<open>redirect_uri\<close> of the client context, a question mark
  and the query string of the parameter \<^verbatim>\<open>code\<close>, which is the id of the stored grant,
  the delimiter and its code, followed by the parameter \<^verbatim>\<open>state\<close>, unchanged, when the
  context has a state that is not the empty string. The store then holds the grant under
  that id, which the store had not used before. When the store fails the save, the
  unknown error is logged and surfaced, the store is as it was and nothing is redirected.
\<close>

theorem send_grant_redirect:
  "(map_of (fault r) Grant_save = None \<longrightarrow>
      send_grant stringify now rand new_id r user_id cd =
        ([Redirect (redirect_uri cd @ ''?'' @
            stringify ((''code'', new_id @ ''|'' @ rand) #
              (case state cd of
                 None \<Rightarrow> []
               | Some s \<Rightarrow> if s = [] then [] else [(''state'', s)])))],
         r\<lparr>Grant := Grant r @
            [\<lparr>g_id = new_id, g_client_id = client_id cd, g_time = now,
              g_user_id = user_id, g_code = rand\<rparr>]\<rparr>)) \<and>
   (map_of (fault r) Grant_save = Some e \<longrightarrow>
      send_grant stringify now rand new_id r user_id cd = (unknown_error e, r)) \<and>
   (\<exists>u. Redirect u \<in> set (fst (send_grant stringify now rand new_id r user_id cd)))
     = (map_of (fault r) Grant_save = None) \<and>
   (map_of (fault r) Grant_save = None \<and> Grant_get_ids r new_id = None \<longrightarrow>
      Grant_get_ids (snd (send_grant stringify now rand new_id r user_id cd)) new_id
        = Some \<lparr>g_id = new_id, g_client_id = client_id cd, g_time = now,
                g_user_id = user_id, g_code = rand\<rparr>)"
proof -
  let ?g = "\<lparr>g_id = new_id, g_client_id = client_id cd, g_time = now,
              g_user_id = user_id, g_code = rand\<rparr>"
  have saved: "send_grant stringify now rand new_id r user_id cd =
        ([Redirect (redirect_uri cd @ ''?'' @
            stringify ((''code'', new_id @ ''|'' @ rand) #
              (case state cd of
                 None \<Rightarrow> []
               | Some s \<Rightarrow> if s = [] then [] else [(''state'', s)])))],
         r\<lparr>Grant := Grant r @ [?g]\<rparr>)"
    if "map_of (fault r) Grant_save = None"
    using that
    by (simp add: send_grant_def save_grant_def truthy_def Let_def split: option.splits)
  have failed: "send_grant stringify now rand new_id r user_id cd = (unknown_error e, r)"
    if "map_of (fault r) Grant_save = Some e"
    using that by (simp add: send_grant_def save_grant_def)
  have iff: "(\<exists>u. Redirect u \<in> set (fst (send_grant stringify now rand new_id r user_id cd)))
     = (map_of (fault r) Grant_save = None)"
  proof (cases "map_of (fault r) Grant_save")
    case None
    then show ?thesis by (simp add: saved)
  next
    case (Some e')
    then have "send_grant stringify now rand new_id r user_id cd = (unknown_error e', r)"
      by (simp add: send_grant_def save_grant_def)
    with Some show ?thesis by (simp add: unknown_error_def)
  qed
  have stored: "Grant_get_ids (snd (send_grant stringify now rand new_id r user_id cd)) new_id
        = Some ?g"
    if "map_of (fault r) Grant_save = None" and "Grant_get_ids r new_id = None"
  proof -
    from that(2) have "find (\<lambda>g. g_id g = new_id) (Grant r) = None"
      by (simp add: Grant_get_ids_def)
    then have "find (\<lambda>g. g_id g = new_id) (Grant r @ [?g]) = Some ?g"
      by (simp add: find_append_None)
    with that(1) show ?thesis
      by (simp add: saved Grant_get_ids_def)
  qed
  from saved failed iff stored show ?thesis by blast
qed

theorem send_grant_redirect_witness:
  "send_grant join_qs 1000 ''abc'' ''g2'' store1 ''U1'' client_data1 =
     ([Redirect ''https://c1/cb?code=g2|abc&state=xyz''],
      store1\<lparr>Grant := [grant1, \<lparr>g_id = ''g2'', g_client_id = ''C1'', g_time = 1000,
                                  g_user_id = ''U1'', g_code = ''abc''\<rparr>]\<rparr>) \<and>
   send_grant join_qs 1000 ''abc'' ''g2'' (store1\<lparr>fault := [(Grant_save, lost)]\<rparr>) ''U1''
       client_data1
     = (unknown_error lost, store1\<lparr>fault := [(Grant_save, lost)]\<rparr>)"
proof -
  have ok: "map_of (fault store1) Grant_save = None"
    by (simp add: store1_def)
  have ko: "map_of (fault (store1\<lparr>fault := [(Grant_save, lost)]\<rparr>)) Grant_save = Some lost"
    by simp
  from ok send_grant_redirect [where r = store1 and e = lost and stringify = join_qs
      and now = 1000 and rand = "''abc''" and new_id = "''g2''" and user_id = "''U1''"
      and cd = client_data1]
  have "send_grant join_qs 1000 ''abc'' ''g2'' store1 ''U1'' client_data1 =
     ([Redirect ''https://c1/cb?code=g2|abc&state=xyz''],
      store1\<lparr>Grant := [grant1, \<lparr>g_id = ''g2'', g_client_id = ''C1'', g_time = 1000,
                                  g_user_id = ''U1'', g_code = ''abc''\<rparr>]\<rparr>)"
    by (simp add: client_data1_def store1_def)
  moreover from ko send_grant_redirect [where r = "store1\<lparr>fault := [(Grant_save, lost)]\<rparr>"
      and e = lost and stringify = join_qs and now = 1000 and rand = "''abc''"
      and new_id = "''g2''" and user_id = "''U1''" and cd = client_data1]
  have "send_grant join_qs 1000 ''abc'' ''g2'' (store1\<lparr>fault := [(Grant_save, lost)]\<rparr>) ''U1''
       client_data1
     = (unknown_error lost, store1\<lparr>fault := [(Grant_save, lost)]\<rparr>)"
    by simp
  ultimately show ?thesis by simp
qed

subsection \<open>The response type of an authorization request\<close>

lemma response_types_has_iff:
  "response_types_has x =
     (x \<in> {''token'', ''code'', ''code_and_token''} \<or> x \<in> set Object_prototype)"
  by (auto simp add: response_types_has_def eua_response_types_def Object_prototype_def)

lemma authorize_client_store1:
  "authorize_client ERRORS store1 (query1(''response_type'' \<mapsto> t))
     = [Login \<lparr>client_id = ''C1'', client_name = ''App'',
               redirect_uri = ''https://c1/cb'', state = None\<rparr>]"
  by (simp add: authorize_client_def Client_get_ids_def store1_def client1_def query1_def)

lemma query1_mandatory:
  "t \<noteq> [] \<Longrightarrow> \<not> missing_mandatory eua_mandatory (query1(''response_type'' \<mapsto> t))"
  by (simp add: missing_mandatory_def eua_mandatory_def query1_def truthy_def)

text \<open>What \<^verbatim>\<open>authorize\<close> does with each response type, for a request that has the mandatory
  parameters: after the response 501 it goes on to the lookup of the client.\<close>

lemma authorize_response_type:
  assumes "\<not> missing_mandatory eua_mandatory ps" and "ps ''response_type'' = Some t"
  shows "authorize ERRORS r ps =
     (if t \<in> {''token'', ''code_and_token''} \<or> t \<in> set Object_prototype
      then not_implemented @ authorize_client ERRORS r ps
      else if t = ''code'' then authorize_client ERRORS r ps
      else oauth_error ERRORS ''eua'' ''unsupported_response_type'')"
  using assms
  by (auto simp add: authorize_def response_types_has_iff Object_prototype_def)

text \<open>
  C4. The authorization request of \<open>C1\<close> with the response type \<open>token\<close>:
  \<^verbatim>\<open>authorize\<close> writes the response 501 and ends it, then looks the client up, finds
  it with the redirect target of the request, and calls the login flow.
\<close>

theorem authorize_token_falls_through:
  "authorize descriptions store1 (query1(''response_type'' \<mapsto> ''token''))
     = [WriteHead 501 [(''Content-Type'', ''text/html'')],
        End (Text ''Only code request type supported for now (schema 1.4.1 in oauth2 spec draft 10).''),
        Login \<lparr>client_id = ''C1'', client_name = ''App'',
               redirect_uri = ''https://c1/cb'', state = None\<rparr>]"
  by (simp add: authorize_def query1_mandatory authorize_client_store1 response_types_has_iff
      not_implemented_def)

text \<open>
  C10. The authorization request of \<open>C1\<close> with the response type \<open>constructor\<close>, which
  is none of \<open>token\<close>, \<open>code\<close> and \<open>code_and_token\<close>:
  \<^verbatim>\<open>PARAMS.eua.response_types['constructor']\<close> is the inherited property, a function, so
  the request is not reported as \<open>unsupported_response_type\<close>; it gets the response
  501 and goes on as the response type \<open>token\<close> does.
\<close>

theorem authorize_constructor_not_unsupported:
  "authorize descriptions store1 (query1(''response_type'' \<mapsto> ''constructor''))
     = [WriteHead 501 [(''Content-Type'', ''text/html'')],
        End (Text ''Only code request type supported for now (schema 1.4.1 in oauth2 spec draft 10).''),
        Login \<lparr>client_id = ''C1'', client_name = ''App'',
               redirect_uri = ''https://c1/cb'', state = None\<rparr>]"
  by (simp add: authorize_def query1_mandatory authorize_client_store1 response_types_has_iff
      not_implemented_def Object_prototype_def)

subsection \<open>Parameters in the form of an authorization request\<close>

text \<open>
  \<^verbatim>\<open>authorize_endpoint\<close> reads the form only when \<^verbatim>\<open>URL.parse(req.url, true).query\<close> is
  falsy. The first releases of the runtime gave \<^verbatim>\<open>undefined\<close> to a URL without a query
  string; the releases since give the empty object, which is truthy.
\<close>

lemma authorize_endpoint_form:
  "parse_query (url rq) = None \<Longrightarrow> form rq = Some (Complete fs) \<Longrightarrow>
   authorize_endpoint ERRORS parse_query r rq = authorize ERRORS r fs"
  by (simp add: authorize_endpoint_def)

lemma authorize_endpoint_object:
  "parse_query (url rq) = Some ps \<Longrightarrow>
   authorize_endpoint ERRORS parse_query r (rq\<lparr>form := f\<rparr>) = authorize ERRORS r ps"
  by (simp add: authorize_endpoint_def)

lemma query_object_post1: "query_object (url post1) = Some Map.empty"
  by (simp add: query_object_def post1_def)

lemma authorize_query1:
  "authorize descriptions store1 query1
     = [Login \<lparr>client_id = ''C1'', client_name = ''App'',
               redirect_uri = ''https://c1/cb'', state = None\<rparr>]"
  by (simp add: authorize_def authorize_client_def Client_get_ids_def store1_def client1_def
      query1_def missing_mandatory_def eua_mandatory_def truthy_def response_types_has_def
      eua_response_types_def)

text \<open>
  C9. The authorization request of \<open>C1\<close> sent as a POST, with no query string on the URL
  and the parameters in the form, the parameters being those that \<^verbatim>\<open>authorize\<close> accepts:
  the query of the URL is the empty object, \<^verbatim>\<open>authorize\<close> is called with it, and the
  request is answered \<open>invalid_request\<close>. The form is not read.
\<close>

theorem authorize_endpoint_form_not_read:
  "form post1 = Some (Complete query1) \<and>
   authorize_endpoint descriptions query_object store1 post1
     = oauth_error descriptions ''eua'' ''invalid_request''"
  by (simp add: authorize_endpoint_def query_object_post1 authorize_def missing_mandatory_def
      eua_mandatory_def truthy_def) (simp add: post1_def)

end
